theory Spec2Isabelle
  imports Main "HOL-Library.Sublist"
begin

section \<open>Element trees\<close>

text \<open>
  A page component returns a tree of elements. An element carries the name of its
  component or tag, its props in source order, and its children; a string or a number
  placed between tags is a text node. A prop written without a value
  (\<^verbatim>\<open>priority\<close>, \<^verbatim>\<open>fillWidth\<close>) is the boolean true.
\<close>

datatype prop_value = Str string | Num int | Flag bool

datatype node = Element string "(string \<times> prop_value) list" "node list" | TextNode string

text \<open>All elements of a given name, outermost first, in document order.\<close>

fun elements_named :: "string \<Rightarrow> node \<Rightarrow> node list" where
  "elements_named n (TextNode s) = []"
| "elements_named n (Element m ps cs) =
     (if m = n then [Element m ps cs] else []) @ concat (map (elements_named n) cs)"

text \<open>All text nodes of a tree, in document order.\<close>

fun texts :: "node \<Rightarrow> string list" where
  "texts (TextNode s) = [s]"
| "texts (Element m ps cs) = concat (map texts cs)"

text \<open>Every string that occurs in a tree: prop values and text nodes.\<close>

fun prop_strings :: "(string \<times> prop_value) list \<Rightarrow> string list" where
  "prop_strings [] = []"
| "prop_strings ((k, Str s) # ps) = s # prop_strings ps"
| "prop_strings ((k, v) # ps) = prop_strings ps"

fun strings_of :: "node \<Rightarrow> string list" where
  "strings_of (TextNode s) = [s]"
| "strings_of (Element m ps cs) = prop_strings ps @ concat (map strings_of cs)"

text \<open>The value of a prop of an element.\<close>

fun prop_of :: "string \<Rightarrow> node \<Rightarrow> prop_value option" where
  "prop_of k (TextNode s) = None"
| "prop_of k (Element m ps cs) = map_of ps k"

text \<open>\<open>contains t u\<close>: the tree \<open>u\<close> occurs in \<open>t\<close> (as \<open>t\<close> itself or below it).\<close>

fun contains :: "node \<Rightarrow> node \<Rightarrow> bool" where
  "contains (TextNode s) u = (u = TextNode s)"
| "contains (Element m ps cs) u = (u = Element m ps cs \<or> (\<exists>c \<in> set cs. contains c u))"

section \<open>Article metadata (content.js)\<close>

text \<open>
  The \<^verbatim>\<open>Article\<close> type of \<^verbatim>\<open>articles/page.tsx\<close>. The fields
  \<^verbatim>\<open>id\<close> and \<^verbatim>\<open>image\<close> are primed, since both names are constants of HOL.
  An id is an integer-valued number.
\<close>

record article =
  id' :: int
  title :: string
  description :: string
  date :: string
  image' :: string
  link :: string
  tags :: "string list"

text \<open>\<^verbatim>\<open>articles.data\<close> of \<^verbatim>\<open>src/app/resources/content.js\<close>.\<close>

definition articles_data :: "article list" where
  "articles_data =
    [\<lparr>id' = 0,
      title = ''Building Scalable React Applications'',
      description = ''Learn how to architect large-scale React applications with best practices for state management, component organization, and performance optimization. This article covers advanced patterns and techniques for building maintainable React codebases.'',
      date = ''May 15, 2024'',
      image' = ''/images/articles/img1.jpg'',
      link = ''/articles/0'',
      tags = [''React'', ''Architecture'', ''Performance'']\<rparr>,
     \<lparr>id' = 1,
      title = ''System Design: Designing the StarWidget'',
      description = ''A comprehensive guide to migrating your Vue 2 application to Next.js, including strategies for handling state, routing, and server-side rendering. Learn how to plan and execute a phased migration while maintaining application functionality.'',
      date = ''April 29, 2025'',
      image' = ''/images/articles/img2.jpg'',
      link = ''/articles/1'',
      tags = [''System Design'']\<rparr>,
     \<lparr>id' = 2,
      title = ''Behavioral Interview Questions'',
      description = ''A collection of behavioral interview questions that are commonly asked in technical interviews. Learn how to prepare for these questions and answer them confidently.'',
      date = ''May 1, 2025'',
      image' = ''/images/articles/img3.jpg'',
      link = ''/articles/2'',
      tags = [''Behavioral Interview'', ''Frontend Interview'']\<rparr>]"

section \<open>Number to string\<close>

text \<open>
  \<^verbatim>\<open>article.id.toString()\<close> and the concatenation \<^verbatim>\<open>"/articles/" + article.id\<close>
  render an integer-valued number in decimal: a minus sign for a negative number, then
  the digits, most significant first, with no leading zero. This is what JavaScript
  does for every integer below ten to the power 21 in magnitude, which includes every
  id that a number holds exactly and the ids 0, 1 and 2 of the list. From there on
  JavaScript writes an exponent, and an id that is not an integer is not modelled.
\<close>

definition digit_char :: "nat \<Rightarrow> char" where
  "digit_char d = ''0123456789'' ! d"

fun to_dec :: "nat \<Rightarrow> string" where
  "to_dec n = (if n < 10 then [digit_char n] else to_dec (n div 10) @ [digit_char (n mod 10)])"

definition toString :: "int \<Rightarrow> string" where
  "toString i = (if i < 0 then CHR ''-'' # to_dec (nat (- i)) else to_dec (nat i))"

section \<open>The article detail page (articles/[id]/page.tsx)\<close>

record Params =
  id' :: string

datatype plugin = remarkGfm

datatype io_error = ENOENT | EACCES | EISDIR

text \<open>
  What the page takes from outside the repository: the working directory of the
  process, \<^verbatim>\<open>path.join\<close>, the file system behind \<^verbatim>\<open>fs.readFile\<close> (a read
  returns the text of the file or fails), what the markdown component renders from a
  text that the model of markdown below does not cover, and the class names of the
  CSS module \<^verbatim>\<open>article.module.css\<close>.
\<close>

record runtime =
  cwd :: string
  path_join :: "string \<Rightarrow> string \<Rightarrow> string"
  readFile :: "string \<Rightarrow> io_error + string"
  markdown_beyond :: "plugin list \<Rightarrow> string \<Rightarrow> node"
  styles :: "string \<Rightarrow> string"

section \<open>Markdown\<close>

text \<open>
  Modelled from the spec: the rendering of markdown. The page hands the text to the
  \<^verbatim>\<open>ReactMarkdown\<close> component of the package react-markdown with the plugin
  \<^verbatim>\<open>remarkGfm\<close> of the package remark-gfm, and neither package is under
  \<^verbatim>\<open>src/\<close>. The spec asks to parse the text as markdown with table support and to
  render it to markup, so that \<^verbatim>\<open># Hello\<close> yields a first-level heading
  \<^verbatim>\<open>Hello\<close> and markdown table syntax yields a table.

  The model covers a fragment of markdown and is undefined on every other text. A
  text of the fragment is made of blocks separated by blank lines, and a block is
  \<^item> a heading: one line of one to six \<^verbatim>\<open>#\<close>, then spaces, then plain text;
  \<^item> a table, when the plugin is given: a header row, a delimiter row of as many
    cells, each of three or more \<^verbatim>\<open>-\<close>, and any number of rows of as many cells,
    every row between a leading and a trailing \<^verbatim>\<open>|\<close>;
  \<^item> a paragraph: lines of plain text.
  Plain text is a non-empty run of letters, digits and spaces that neither starts nor
  ends with a space, so that no character of it has a meaning in markdown.
\<close>

fun split_where :: "('a \<Rightarrow> bool) \<Rightarrow> 'a list \<Rightarrow> 'a list list" where
  "split_where P [] = [[]]"
| "split_where P (x # xs) =
     (if P x then [] # split_where P xs
      else (case split_where P xs of [] \<Rightarrow> [[x]] | l # ls \<Rightarrow> (x # l) # ls))"

definition lines :: "string \<Rightarrow> string list" where
  "lines s = split_where (\<lambda>c. c = CHR 0x0A) s"

definition blank :: "string \<Rightarrow> bool" where
  "blank l = list_all (\<lambda>c. c = CHR '' '') l"

text \<open>The runs of lines between blank lines.\<close>

definition chunks :: "string list \<Rightarrow> string list list" where
  "chunks ls = filter (\<lambda>c. c \<noteq> []) (split_where blank ls)"

definition plain_char :: "char \<Rightarrow> bool" where
  "plain_char c = (c \<in> set ''abcdefghijklmnopqrstuvwxyzABCDEFGHIJKLMNOPQRSTUVWXYZ0123456789 '')"

definition plain_text :: "string \<Rightarrow> bool" where
  "plain_text t = (t \<noteq> [] \<and> list_all plain_char t \<and> hd t \<noteq> CHR '' '' \<and> last t \<noteq> CHR '' '')"

definition strip :: "string \<Rightarrow> string" where
  "strip s = rev (dropWhile (\<lambda>c. c = CHR '' '') (rev (dropWhile (\<lambda>c. c = CHR '' '') s)))"

text \<open>The level and the text of a heading line.\<close>

definition heading :: "string \<Rightarrow> (nat \<times> string) option" where
  "heading l =
     (let n = length (takeWhile (\<lambda>c. c = CHR ''#'') l);
          rest = dropWhile (\<lambda>c. c = CHR ''#'') l;
          t = dropWhile (\<lambda>c. c = CHR '' '') rest
      in if 1 \<le> n \<and> n \<le> 6 \<and> take 1 rest = '' '' \<and> plain_text t then Some (n, t) else None)"

text \<open>The cells of a table row, without the spaces around them.\<close>

definition row_cells :: "string \<Rightarrow> string list option" where
  "row_cells l =
     (case split_where (\<lambda>c. c = CHR ''|'') l of
        [] \<Rightarrow> None
      | first # rest \<Rightarrow>
          if first = [] \<and> rest \<noteq> [] \<and> last rest = [] \<and> butlast rest \<noteq> []
          then Some (map strip (butlast rest)) else None)"

definition cell_text :: "string \<Rightarrow> bool" where
  "cell_text c = (c = [] \<or> plain_text c)"

definition dashes :: "string \<Rightarrow> bool" where
  "dashes d = (3 \<le> length d \<and> list_all (\<lambda>c. c = CHR ''-'') d)"

text \<open>The header cells and the rows of a block that is a table.\<close>

definition table_of :: "string list \<Rightarrow> (string list \<times> string list list) option" where
  "table_of chunk =
     (case chunk of
        hdr # delim # rows \<Rightarrow>
          (case (row_cells hdr, row_cells delim, those (map row_cells rows)) of
             (Some hs, Some ds, Some rs) \<Rightarrow>
               if list_all cell_text hs \<and> list_all dashes ds \<and> length ds = length hs
                  \<and> list_all (\<lambda>r. length r = length hs \<and> list_all cell_text r) rs
               then Some (hs, rs) else None
           | _ \<Rightarrow> None)
      | _ \<Rightarrow> None)"

definition cell_node :: "string \<Rightarrow> string \<Rightarrow> node" where
  "cell_node tag c = Element tag [] (if c = [] then [] else [TextNode c])"

text \<open>The table element: a head with the header cells, a body with the rows if any.\<close>

definition table_node :: "string list \<Rightarrow> string list list \<Rightarrow> node" where
  "table_node hs rs =
     Element ''table'' []
       (Element ''thead'' [] [Element ''tr'' [] (map (cell_node ''th'') hs)]
        # (if rs = [] then []
           else [Element ''tbody'' [] (map (\<lambda>r. Element ''tr'' [] (map (cell_node ''td'') r)) rs)]))"

fun join_lines :: "string list \<Rightarrow> string" where
  "join_lines [] = []"
| "join_lines [l] = l"
| "join_lines (l # ls) = l @ CHR 0x0A # join_lines ls"

definition paragraph_of :: "string list \<Rightarrow> node option" where
  "paragraph_of chunk =
     (if list_all plain_text chunk then Some (Element ''p'' [] [TextNode (join_lines chunk)]) else None)"

text \<open>The element of a block: a heading, a table (with the plugin) or a paragraph.\<close>

definition block_of :: "plugin list \<Rightarrow> string list \<Rightarrow> node option" where
  "block_of plugins chunk =
     (case chunk of
        [l] \<Rightarrow>
          (case heading l of
             Some (n, t) \<Rightarrow> Some (Element (''h'' @ [digit_char n]) [] [TextNode t])
           | None \<Rightarrow> paragraph_of chunk)
      | _ \<Rightarrow>
          (case (if remarkGfm \<in> set plugins then table_of chunk else None) of
             Some (hs, rs) \<Rightarrow> Some (table_node hs rs)
           | None \<Rightarrow> paragraph_of chunk))"

fun between :: "'a \<Rightarrow> 'a list \<Rightarrow> 'a list" where
  "between s [] = []"
| "between s [x] = [x]"
| "between s (x # xs) = x # s # between s xs"

text \<open>
  Modelled from the spec: what the component renders from a text of the fragment, a
  fragment element that holds the elements of the blocks with a line break between
  them; \<open>None\<close> on a text outside the fragment.
\<close>

definition markdown :: "plugin list \<Rightarrow> string \<Rightarrow> node option" where
  "markdown plugins md =
     map_option (\<lambda>blocks. Element ''Fragment'' [] (between (TextNode [CHR 0x0A]) blocks))
       (those (map (block_of plugins) (chunks (lines md))))"

text \<open>
  Modelled from the spec: the \<^verbatim>\<open>ReactMarkdown\<close> component, from its plugins and
  its markdown source to the tree it renders. On a text of the fragment it renders
  what the model says; on any other text it renders what the runtime says.
\<close>

definition ReactMarkdown :: "runtime \<Rightarrow> plugin list \<Rightarrow> string \<Rightarrow> node" where
  "ReactMarkdown rt plugins md =
     (case markdown plugins md of Some html \<Rightarrow> html | None \<Rightarrow> markdown_beyond rt plugins md)"

section \<open>The page\<close>

text \<open>
  \<^verbatim>\<open>notFound()\<close> throws, so nothing after it runs: the outcome of a request is
  either not-found or the rendered page.
\<close>

datatype outcome = NotFound | Rendered node

definition generateStaticParams :: "article list \<Rightarrow> Params list" where
  "generateStaticParams data = map (\<lambda>article. \<lparr>Params.id' = toString (article.id' article)\<rparr>) data"

definition find_article :: "article list \<Rightarrow> Params \<Rightarrow> article option" where
  "find_article data params = find (\<lambda>a. toString (article.id' a) = Params.id' params) data"

text \<open>The path of the markdown file of a request.\<close>

definition filePath :: "runtime \<Rightarrow> Params \<Rightarrow> string" where
  "filePath rt params =
     (let mdDir = path_join rt (cwd rt) ''public/articles''
      in path_join rt mdDir (Params.id' params @ ''.md''))"

text \<open>
  \<^verbatim>\<open>fs.readFile\<close>, the one operation of the page that touches the file system. A
  call returns what the file system holds at the path, or the error of the read, and
  leaves its trace: the log of the paths read grows by the path. The page has no other
  access to the log or to the files.
\<close>

definition fs_readFile :: "runtime \<Rightarrow> string \<Rightarrow> string list \<Rightarrow> (io_error + string) \<times> string list" where
  "fs_readFile rt p log = (readFile rt p, log @ [p])"

text \<open>The \<^verbatim>\<open>try\<close>/\<^verbatim>\<open>catch\<close> around the read.\<close>

definition read_content :: "runtime \<Rightarrow> string \<Rightarrow> string list \<Rightarrow> string \<times> string list" where
  "read_content rt p log =
     (case fs_readFile rt p log of
        (Inr text, log') \<Rightarrow> (text, log')
      | (Inl e, log') \<Rightarrow> (''File cannot be used'', log'))"

text \<open>The element tree the page returns for an article and its content.\<close>

definition article_page :: "runtime \<Rightarrow> article \<Rightarrow> string \<Rightarrow> node" where
  "article_page rt article content =
     Element ''Column'' [(''gap'', Str ''m''), (''padding'', Str ''l'')]
       [Element ''div'' [(''className'', Str (styles rt ''articleImageContainer''))]
          [Element ''Image''
             [(''src'', Str (image' article)), (''alt'', Str (title article)),
              (''width'', Num 320), (''height'', Num 240),
              (''className'', Str (styles rt ''articleImage'')), (''priority'', Flag True)] []],
        Element ''Text''
          [(''variant'', Str ''heading-default-xl''),
           (''className'', Str (styles rt ''articleTitle''))]
          [TextNode (title article)],
        Element ''Text''
          [(''variant'', Str ''body-default-s''), (''className'', Str ''text-neutral-500'')]
          [TextNode (date article)],
        Element ''Line'' [] [],
        Element ''div'' [(''className'', Str (styles rt ''articleContent''))]
          [ReactMarkdown rt [remarkGfm] content]]"

text \<open>
  The page, with the file reads it performs: \<open>log\<close> is the list of the paths read so
  far, and the page returns the log its reads have left.
\<close>

definition ArticleDetail ::
  "runtime \<Rightarrow> article list \<Rightarrow> Params \<Rightarrow> string list \<Rightarrow> outcome \<times> string list" where
  "ArticleDetail rt data params log =
     (case find_article data params of
        None \<Rightarrow> (NotFound, log)
      | Some article \<Rightarrow>
          (let (content, log') = read_content rt (filePath rt params) log
           in (Rendered (article_page rt article content), log')))"

section \<open>A sample runtime\<close>

text \<open>
  A runtime to evaluate the page on: \<^verbatim>\<open>path.join\<close> on two plain segments, a file
  system that holds \<^verbatim>\<open>0.md\<close>, a heading, and \<^verbatim>\<open>2.md\<close>, a table, and a
  markdown component that leaves a text outside the modelled fragment as it is.
\<close>

definition sample_join :: "string \<Rightarrow> string \<Rightarrow> string" where
  "sample_join a b = a @ ''/'' @ b"

definition sample_table :: string where
  "sample_table =
     ''| Name | Role |'' @ [CHR 0x0A] @ ''| --- | --- |'' @ [CHR 0x0A] @ ''| Ada | Engineer |'' @ [CHR 0x0A]"

definition sample_files :: "string \<Rightarrow> io_error + string" where
  "sample_files p =
     (if p = ''/app/public/articles/0.md'' then Inr ''# Hello''
      else if p = ''/app/public/articles/2.md'' then Inr sample_table
      else Inl ENOENT)"

definition sample_rt :: runtime where
  "sample_rt = \<lparr>cwd = ''/app'', path_join = sample_join, readFile = sample_files,
                markdown_beyond = (\<lambda>plugins s. TextNode s), styles = (\<lambda>k. k)\<rparr>"

section \<open>The article list page (articles/page.tsx)\<close>

text \<open>One entry of the list: the body of the \<^verbatim>\<open>map\<close> over the articles.\<close>

definition article_entry :: "nat \<Rightarrow> article \<Rightarrow> node" where
  "article_entry index article =
     Element ''Link''
       [(''href'', Str (''/articles/'' @ toString (article.id' article))), (''key'', Num (int index))]
       [Element ''Flex''
          [(''className'', Str ''border rounded-sm overflow-hidden rounded-lg shadow-sm transition-shadow duration-300 group-hover:shadow-lg'')]
          [Element ''Image''
             [(''src'', Str (image' article)), (''alt'', Str (title article)),
              (''width'', Num 360), (''height'', Num 240),
              (''className'', Str ''object-cover transition-transform duration-300 group-hover:scale-105'')] [],
           Element ''Column'' [(''gap'', Str ''s''), (''padding'', Str ''m'')]
             [Element ''Text''
                [(''variant'', Str ''body-default-s''),
                 (''className'', Str ''text-neutral-500 dark:text-neutral-400'')]
                [TextNode (date article)],
              Element ''Text''
                [(''variant'', Str ''heading-default-s''),
                 (''className'', Str ''text-neutral-900 dark:text-white line-clamp-2 transition-colors group-hover:text-brand-600'')]
                [TextNode (title article)],
              Element ''Text''
                [(''variant'', Str ''body-default-s''),
                 (''className'', Str ''text-neutral-600 dark:text-neutral-300 line-clamp-3'')]
                [TextNode (description article)],
              Element ''Flex'' [(''gap'', Str ''2''), (''wrap'', Flag True), (''marginTop'', Str ''s'')]
                (map (\<lambda>(tagIndex, tag).
                        Element ''Text''
                          [(''key'', Num (int tagIndex)), (''variant'', Str ''body-default-xs''),
                           (''className'', Str ''bg-neutral-100 text-neutral-800 dark:bg-neutral-800 dark:text-neutral-200 px-2 py-1 rounded'')]
                          [TextNode tag])
                   (enumerate 0 (tags article)))]]]"

definition empty_state :: node where
  "empty_state =
     Element ''Flex''
       [(''fillWidth'', Flag True), (''horizontal'', Str ''center''), (''vertical'', Str ''center''),
        (''padding'', Str ''xl'')]
       [Element ''Column'' [(''gap'', Str ''m''), (''horizontal'', Str ''center'')]
          [Element ''Text'' [(''variant'', Str ''heading-default-l'')] [TextNode ''Coming Soon''],
           Element ''Text'' [(''variant'', Str ''body-default-m''), (''className'', Str ''text-center'')]
             [TextNode ''No articles available at the moment. Check back later for tech articles and tutorials.'']]]"

text \<open>
  The page. Its argument is \<^verbatim>\<open>articles.data\<close>, which \<^verbatim>\<open>articles.data || []\<close>
  replaces by the empty list when it is undefined.
\<close>

definition Articles :: "article list option \<Rightarrow> node" where
  "Articles data =
     (let articlesData = (case data of Some d \<Rightarrow> d | None \<Rightarrow> [])
      in Element ''Column'' [(''gap'', Str ''8'')]
           [if length articlesData > 0
            then Element ''Fragment'' []
                   (map (\<lambda>(index, article). article_entry index article) (enumerate 0 articlesData))
            else empty_state])"

section \<open>The header\<close>

text \<open>\<^verbatim>\<open>about.label\<close> and \<^verbatim>\<open>articles.label\<close> of content.js.\<close>

definition about_label :: string where
  "about_label = ''About''"

definition articles_label :: string where
  "articles_label = ''Articles''"

text \<open>
  The header takes the \<^verbatim>\<open>routes\<close> table of the configuration module (which
  routes are enabled) and the result of \<^verbatim>\<open>usePathname()\<close>, which may be null.
  An entry whose route is disabled is not rendered at all.
\<close>

definition Header :: "(string \<Rightarrow> bool) \<Rightarrow> string option \<Rightarrow> node" where
  "Header routes current =
     (let pathname = (case current of Some p \<Rightarrow> p | None \<Rightarrow> '''')
      in Element ''Fragment'' []
        [Element ''Fade''
           [(''hide'', Str ''s''), (''fillWidth'', Flag True), (''position'', Str ''fixed''),
            (''height'', Str ''80''), (''zIndex'', Num 9)]
           [Element ''div''
              [(''className'', Str ''absolute inset-0 bg-gradient-to-b from-page-background to-transparent backdrop-blur-sm pointer-events-none'')] []],
         Element ''Fade''
           [(''show'', Str ''s''), (''fillWidth'', Flag True), (''position'', Str ''fixed''),
            (''bottom'', Str ''0''), (''to'', Str ''top''), (''height'', Str ''80''), (''zIndex'', Num 9)]
           [Element ''div''
              [(''className'', Str ''absolute inset-0 bg-gradient-to-t from-page-background to-transparent backdrop-blur-sm pointer-events-none'')] []],
         Element ''Flex''
           [(''as'', Str ''header''), (''className'', Str ''sticky top-0 sm:fixed sm:bottom-6 sm:top-auto''),
            (''zIndex'', Num 9), (''fillWidth'', Flag True), (''padding'', Str ''8''),
            (''horizontal'', Str ''center'')]
           [Element ''Flex''
              [(''fillWidth'', Flag True), (''horizontal'', Str ''start''), (''marginLeft'', Str ''12'')]
              [Element ''Flex''
                 [(''background'', Str ''surface''), (''border'', Str ''neutral-medium''),
                  (''radius'', Str ''m-4''), (''shadow'', Str ''l''), (''padding'', Str ''4''),
                  (''horizontal'', Str ''center'')]
                 [Element ''Flex''
                    [(''gap'', Str ''4''), (''vertical'', Str ''center''),
                     (''textVariant'', Str ''body-default-s'')]
                    ((if routes ''/''
                      then [Element ''ToggleButton''
                              [(''prefixIcon'', Str ''home''), (''href'', Str ''/''),
                               (''selected'', Flag (pathname = ''/''))] []]
                      else [])
                     @ [Element ''Line'' [(''vert'', Flag True), (''maxHeight'', Str ''24'')] []]
                     @ (if routes ''/about''
                        then [Element ''Fragment'' []
                                [Element ''ToggleButton''
                                   [(''className'', Str ''s-flex-hide''), (''prefixIcon'', Str ''person''),
                                    (''href'', Str ''/about''), (''label'', Str about_label),
                                    (''selected'', Flag (pathname = ''/about''))] [],
                                 Element ''ToggleButton''
                                   [(''className'', Str ''s-flex-show''), (''prefixIcon'', Str ''person''),
                                    (''href'', Str ''/about''),
                                    (''selected'', Flag (pathname = ''/about''))] []]]
                        else [])
                     @ (if routes ''/articles''
                        then [Element ''Fragment'' []
                                [Element ''ToggleButton''
                                   [(''className'', Str ''s-flex-hide''), (''prefixIcon'', Str ''document''),
                                    (''href'', Str ''/articles''), (''label'', Str articles_label),
                                    (''selected'', Flag (prefix ''/articles'' pathname))] [],
                                 Element ''ToggleButton''
                                   [(''className'', Str ''s-flex-show''), (''prefixIcon'', Str ''document''),
                                    (''href'', Str ''/articles''),
                                    (''selected'', Flag (prefix ''/articles'' pathname))] []]]
                        else []))]]]])"

text \<open>
  The entries of the navigation are the \<^verbatim>\<open>ToggleButton\<close> elements of the tree:
  \<open>nav_hrefs\<close> lists the \<^verbatim>\<open>href\<close> of every entry, \<open>highlighted\<close> the
  \<^verbatim>\<open>href\<close> of every entry whose \<^verbatim>\<open>selected\<close> prop is true.
\<close>

definition entry_href :: "node \<Rightarrow> string list" where
  "entry_href b = (case prop_of ''href'' b of Some (Str h) \<Rightarrow> [h] | _ \<Rightarrow> [])"

definition selected_href :: "node \<Rightarrow> string list" where
  "selected_href b = (case prop_of ''selected'' b of Some (Flag True) \<Rightarrow> entry_href b | _ \<Rightarrow> [])"

definition nav_hrefs :: "node \<Rightarrow> string list" where
  "nav_hrefs t = concat (map entry_href (elements_named ''ToggleButton'' t))"

definition highlighted :: "node \<Rightarrow> string list" where
  "highlighted t = concat (map selected_href (elements_named ''ToggleButton'' t))"

section \<open>The clock (TimeDisplay)\<close>

record TimeDisplayProps =
  timeZone :: string
  locale' :: "string option"

text \<open>
  The timers of the page and the state of the component. Time is the clock of the
  timer queue, in milliseconds. A repeating timer holds its id, its delay, the time
  at which it fires next and the props its handler \<^verbatim>\<open>updateTime\<close> has captured.
  \<open>updates\<close> logs every call of \<^verbatim>\<open>setCurrentTime\<close> with its time, and
  \<open>cleanup\<close> is the interval id held by the cleanup function of the effect while the
  component is mounted.
\<close>

record interval =
  interval_id :: nat
  delay :: nat
  due :: nat
  captured :: TimeDisplayProps

record world =
  now :: nat
  intervals :: "interval list"
  next_id :: nat
  currentTime :: string
  updates :: "(nat \<times> string) list"
  cleanup :: "nat option"

text \<open>
  \<open>fmt\<close> stands for \<^verbatim>\<open>new Intl.DateTimeFormat(locale, options).format(now)\<close>
  with the options of the source: from the locale, the time zone and the time to the
  string displayed.
\<close>

definition updateTime :: "(string \<Rightarrow> string \<Rightarrow> nat \<Rightarrow> string) \<Rightarrow> TimeDisplayProps \<Rightarrow> world \<Rightarrow> world" where
  "updateTime fmt props w =
     (let timeString = fmt (case locale' props of Some l \<Rightarrow> l | None \<Rightarrow> ''en-GB'') (timeZone props) (now w)
      in w\<lparr>currentTime := timeString, updates := updates w @ [(now w, timeString)]\<rparr>)"

definition setInterval :: "TimeDisplayProps \<Rightarrow> nat \<Rightarrow> world \<Rightarrow> nat \<times> world" where
  "setInterval props ms w =
     (next_id w,
      w\<lparr>intervals := intervals w @ [\<lparr>interval_id = next_id w, delay = ms, due = now w + ms, captured = props\<rparr>],
        next_id := next_id w + 1\<rparr>)"

definition clearInterval :: "nat \<Rightarrow> world \<Rightarrow> world" where
  "clearInterval i w = w\<lparr>intervals := filter (\<lambda>t. interval_id t \<noteq> i) (intervals w)\<rparr>"

text \<open>The body of the effect; it returns the id its cleanup function closes over.\<close>

definition TimeDisplay_effect :: "(string \<Rightarrow> string \<Rightarrow> nat \<Rightarrow> string) \<Rightarrow> TimeDisplayProps \<Rightarrow> world \<Rightarrow> nat \<times> world" where
  "TimeDisplay_effect fmt props w =
     (let w1 = updateTime fmt props w;
          (intervalId, w2) = setInterval props 1000 w1
      in (intervalId, w2))"

text \<open>Mounting runs the effect and keeps its cleanup; unmounting runs the cleanup.\<close>

definition mount :: "(string \<Rightarrow> string \<Rightarrow> nat \<Rightarrow> string) \<Rightarrow> TimeDisplayProps \<Rightarrow> world \<Rightarrow> world" where
  "mount fmt props w = (let (intervalId, w') = TimeDisplay_effect fmt props w in w'\<lparr>cleanup := Some intervalId\<rparr>)"

definition unmount :: "world \<Rightarrow> world" where
  "unmount w = (case cleanup w of None \<Rightarrow> w | Some intervalId \<Rightarrow> (clearInterval intervalId w)\<lparr>cleanup := None\<rparr>)"

text \<open>
  One millisecond passes: every timer that is due runs its handler and is scheduled
  again one delay later.
\<close>

definition fire :: "(string \<Rightarrow> string \<Rightarrow> nat \<Rightarrow> string) \<Rightarrow> world \<Rightarrow> interval \<Rightarrow> world" where
  "fire fmt w t = (if due t = now w then updateTime fmt (captured t) w else w)"

definition reschedule :: "nat \<Rightarrow> interval \<Rightarrow> interval" where
  "reschedule n t = (if due t = n then t\<lparr>due := due t + delay t\<rparr> else t)"

definition tick :: "(string \<Rightarrow> string \<Rightarrow> nat \<Rightarrow> string) \<Rightarrow> world \<Rightarrow> world" where
  "tick fmt w =
     (let w1 = w\<lparr>now := now w + 1\<rparr>;
          w2 = foldl (fire fmt) w1 (intervals w1)
      in w2\<lparr>intervals := map (reschedule (now w2)) (intervals w2)\<rparr>)"

fun elapse :: "(string \<Rightarrow> string \<Rightarrow> nat \<Rightarrow> string) \<Rightarrow> nat \<Rightarrow> world \<Rightarrow> world" where
  "elapse fmt 0 w = w"
| "elapse fmt (Suc n) w = elapse fmt n (tick fmt w)"

section \<open>Reading a string as a number\<close>

text \<open>
  When a request string denotes a number: surrounding white space is ignored, a minus
  sign may come first, and the rest is a non-empty run of decimal digits, leading
  zeros allowed. This is the specification's notion of a string that denotes a
  number, written out from its words; the page itself never parses the id.
\<close>

definition is_space :: "char \<Rightarrow> bool" where
  "is_space c = (c \<in> set [CHR '' '', CHR 0x09, CHR 0x0A, CHR 0x0D])"

definition is_digit :: "char \<Rightarrow> bool" where
  "is_digit c = (c \<in> set ''0123456789'')"

definition digit_val :: "char \<Rightarrow> nat" where
  "digit_val c = of_char c - 48"

definition dec_value :: "string \<Rightarrow> nat" where
  "dec_value ds = foldl (\<lambda>acc c. 10 * acc + digit_val c) 0 ds"

definition trim :: "string \<Rightarrow> string" where
  "trim s = rev (dropWhile is_space (rev (dropWhile is_space s)))"

definition digits_value :: "string \<Rightarrow> nat option" where
  "digits_value ds = (if ds \<noteq> [] \<and> list_all is_digit ds then Some (dec_value ds) else None)"

definition denoted_number :: "string \<Rightarrow> int option" where
  "denoted_number s =
     (case trim s of
        [] \<Rightarrow> None
      | c # cs \<Rightarrow>
          if c = CHR ''-'' then map_option (\<lambda>n. - int n) (digits_value cs)
          else map_option int (digits_value (c # cs)))"

section \<open>What a request shows\<close>

text \<open>The strings of the page a request rendered; none when it was not found.\<close>

fun rendered_strings :: "outcome \<Rightarrow> string list" where
  "rendered_strings NotFound = []"
| "rendered_strings (Rendered t) = strings_of t"

section \<open>The clock over time\<close>

text \<open>The string the clock shows for the time \<open>t\<close>.\<close>

definition shown :: "(string \<Rightarrow> string \<Rightarrow> nat \<Rightarrow> string) \<Rightarrow> TimeDisplayProps \<Rightarrow> nat \<Rightarrow> string" where
  "shown fmt props t = fmt (case locale' props of Some l \<Rightarrow> l | None \<Rightarrow> ''en-GB'') (timeZone props) t"

text \<open>
  \<open>running fmt props w n v\<close>: the world \<open>v\<close> is what the clock mounted in \<open>w\<close>
  looks like \<open>n\<close> milliseconds later. Its one timer is due at the next full second
  after the mount, and it has updated the display once at the mount and once at every
  full second since.
\<close>

definition running :: "(string \<Rightarrow> string \<Rightarrow> nat \<Rightarrow> string) \<Rightarrow> TimeDisplayProps \<Rightarrow> world \<Rightarrow> nat \<Rightarrow> world \<Rightarrow> bool" where
  "running fmt props w n v \<longleftrightarrow>
     now v = now w + n
     \<and> intervals v = [\<lparr>interval_id = next_id w, delay = 1000, due = now w + 1000 * Suc (n div 1000), captured = props\<rparr>]
     \<and> cleanup v = Some (next_id w)
     \<and> updates v = updates w @ map (\<lambda>k. (now w + 1000 * k, shown fmt props (now w + 1000 * k))) [0..<Suc (n div 1000)]
     \<and> currentTime v = shown fmt props (now w + 1000 * (n div 1000))"

text \<open>A world before anything is mounted, and a clock to run in it.\<close>

definition initial_world :: world where
  "initial_world = \<lparr>now = 0, intervals = [], next_id = 0, currentTime = '''', updates = [], cleanup = None\<rparr>"

definition sample_fmt :: "string \<Rightarrow> string \<Rightarrow> nat \<Rightarrow> string" where
  "sample_fmt l z t = to_dec (t div 1000 mod 60)"

definition sample_props :: TimeDisplayProps where
  "sample_props = \<lparr>timeZone = ''America/Los_Angeles'', locale' = None\<rparr>"

declare to_dec.simps [simp del]

section \<open>Decimal rendering\<close>

lemma digit_cases: "(d::nat) < 10 \<Longrightarrow> d \<in> {0, 1, 2, 3, 4, 5, 6, 7, 8, 9}"
  by auto

lemma digit_char_is_digit: "d < 10 \<Longrightarrow> is_digit (digit_char d)"
  using digit_cases [of d] by (auto simp: is_digit_def digit_char_def)

lemma digit_val_digit_char: "d < 10 \<Longrightarrow> digit_val (digit_char d) = d"
  using digit_cases [of d] by (auto simp: digit_val_def digit_char_def)

lemma to_dec_digits: "list_all is_digit (to_dec n)"
proof (induction n rule: to_dec.induct)
  case (1 n)
  show ?case
  proof (cases "n < 10")
    case True
    then show ?thesis by (simp add: to_dec.simps [of n] digit_char_is_digit)
  next
    case False
    with 1 show ?thesis by (simp add: to_dec.simps [of n] digit_char_is_digit)
  qed
qed

lemma to_dec_nonempty: "to_dec n \<noteq> []"
  by (simp add: to_dec.simps [of n])

lemma dec_value_snoc: "dec_value (ds @ [c]) = 10 * dec_value ds + digit_val c"
  by (simp add: dec_value_def)

lemma dec_value_to_dec: "dec_value (to_dec n) = n"
proof (induction n rule: to_dec.induct)
  case (1 n)
  show ?case
  proof (cases "n < 10")
    case True
    then show ?thesis
      by (simp add: to_dec.simps [of n] dec_value_def digit_val_digit_char)
  next
    case False
    with 1 have "dec_value (to_dec (n div 10)) = n div 10" by simp
    with False show ?thesis
      by (simp add: to_dec.simps [of n] dec_value_snoc digit_val_digit_char)
  qed
qed

lemma is_digit_not_space: "is_digit c \<Longrightarrow> \<not> is_space c"
  by (auto simp: is_digit_def is_space_def)

lemma is_digit_not_minus: "is_digit c \<Longrightarrow> c \<noteq> CHR ''-''"
  by (auto simp: is_digit_def)

lemma minus_not_space: "\<not> is_space CHR ''-''"
  by (simp add: is_space_def)

lemma dropWhile_id: "xs \<noteq> [] \<Longrightarrow> \<not> P (hd xs) \<Longrightarrow> dropWhile P xs = xs"
  by (cases xs) auto

lemma trim_id: "s \<noteq> [] \<Longrightarrow> \<not> is_space (hd s) \<Longrightarrow> \<not> is_space (last s) \<Longrightarrow> trim s = s"
  by (simp add: trim_def dropWhile_id hd_rev)

lemma digits_hd_last:
  assumes "list_all is_digit ds" "ds \<noteq> []"
  shows "is_digit (hd ds)" "is_digit (last ds)"
  using assms by (auto simp: list_all_iff)

lemma digits_value_to_dec: "digits_value (to_dec n) = Some n"
  by (simp add: digits_value_def to_dec_nonempty to_dec_digits dec_value_to_dec)

lemma denoted_number_toString: "denoted_number (toString i) = Some i"
proof (cases "i < 0")
  case True
  let ?ds = "to_dec (nat (- i))"
  have "trim (CHR ''-'' # ?ds) = CHR ''-'' # ?ds"
    using digits_hd_last [OF to_dec_digits to_dec_nonempty, of "nat (- i)"]
    by (intro trim_id) (simp_all add: minus_not_space to_dec_nonempty is_digit_not_space)
  with True show ?thesis
    by (simp add: denoted_number_def toString_def digits_value_to_dec)
next
  case False
  let ?ds = "to_dec (nat i)"
  have d: "is_digit (hd ?ds)" "is_digit (last ?ds)"
    using digits_hd_last [OF to_dec_digits to_dec_nonempty] by blast+
  have t: "trim ?ds = ?ds"
    using d by (intro trim_id) (simp_all add: to_dec_nonempty is_digit_not_space)
  obtain c cs where cs: "?ds = c # cs"
    using to_dec_nonempty [of "nat i"] by (cases ?ds) auto
  with d have "c \<noteq> CHR ''-''" by (auto dest: is_digit_not_minus)
  moreover have "digits_value (c # cs) = Some (nat i)"
    using digits_value_to_dec [of "nat i"] cs by simp
  ultimately show ?thesis using False t cs
    by (simp add: denoted_number_def toString_def)
qed

lemma toString_inj: "toString i = toString j \<Longrightarrow> i = j"
proof -
  assume "toString i = toString j"
  then have "denoted_number (toString i) = denoted_number (toString j)" by (rule arg_cong)
  then show "i = j" by (simp only: denoted_number_toString option.inject)
qed

lemma find_article_Some:
  "find_article data params = Some a \<Longrightarrow> a \<in> set data \<and> toString (article.id' a) = Params.id' params"
  by (auto simp: find_article_def find_Some_iff)

lemma find_article_distinct:
  assumes "distinct (map article.id' data)" "a \<in> set data"
  shows "find_article data \<lparr>Params.id' = toString (article.id' a)\<rparr> = Some a"
  using assms
proof (induction data)
  case Nil
  then show ?case by simp
next
  case (Cons b data)
  show ?case
  proof (cases "a = b")
    case True
    then show ?thesis by (simp add: find_article_def)
  next
    case False
    with Cons.prems have "a \<in> set data" "article.id' b \<noteq> article.id' a" by auto
    with Cons show ?thesis by (auto simp: find_article_def dest: toString_inj)
  qed
qed

lemma articles_data_distinct: "distinct (map article.id' articles_data)"
  by (simp add: articles_data_def)

section \<open>Requests without a metadata entry\<close>

lemma find_article_None:
  "find_article data params = None \<longleftrightarrow>
     (\<forall>a \<in> set data. toString (article.id' a) \<noteq> Params.id' params)"
  by (auto simp: find_article_def find_None_iff)

text \<open>
  C2. For every requested id with no matching entry in the metadata list, the detail
  view yields the not-found outcome (so no page is rendered) and performs no file
  read: the log of reads is returned as it was.
\<close>

theorem ArticleDetail_absent_not_found:
  assumes "\<forall>a \<in> set data. toString (article.id' a) \<noteq> Params.id' params"
  shows "ArticleDetail rt data params log = (NotFound, log)"
  using assms by (simp add: ArticleDetail_def find_article_None [THEN iffD2])

theorem ArticleDetail_absent_not_found_witness:
  "find_article articles_data \<lparr>Params.id' = ''999''\<rparr> = None
   \<and> ArticleDetail sample_rt articles_data \<lparr>Params.id' = ''999''\<rparr> [] = (NotFound, [])"
proof -
  have h: "\<forall>a \<in> set articles_data. toString (article.id' a) \<noteq> Params.id' \<lparr>Params.id' = ''999''\<rparr>"
    by (simp add: articles_data_def toString_def digit_char_def to_dec.simps)
  from h have "find_article articles_data \<lparr>Params.id' = ''999''\<rparr> = None"
    by (rule find_article_None [THEN iffD2])
  with ArticleDetail_absent_not_found [OF h, of sample_rt "[]"] show ?thesis by blast
qed

section \<open>Pages of articles that have an entry\<close>

lemma contains_refl: "contains t t"
  by (cases t) simp_all


lemma article_page_markdown:
  "contains (article_page rt a content) (ReactMarkdown rt [remarkGfm] content)"
  by (simp add: article_page_def contains_refl)

lemma article_page_image:
  "\<exists>ps. contains (article_page rt a content) (Element ''Image'' ps [])
        \<and> map_of ps ''src'' = Some (Str (image' a)) \<and> map_of ps ''alt'' = Some (Str (title a))"
  by (rule exI [of _ "[(''src'', Str (image' a)), (''alt'', Str (title a)),
              (''width'', Num 320), (''height'', Num 240),
              (''className'', Str (styles rt ''articleImage'')), (''priority'', Flag True)]"])
     (simp add: article_page_def)

lemma article_page_texts:
  "texts (article_page rt a content) = [title a, date a] @ texts (ReactMarkdown rt [remarkGfm] content)"
  by (simp add: article_page_def)

lemma read_content_Inl:
  "readFile rt p = Inl e \<Longrightarrow> read_content rt p log = (''File cannot be used'', log @ [p])"
  by (simp add: read_content_def fs_readFile_def)

lemma read_content_Inr:
  "readFile rt p = Inr md \<Longrightarrow> read_content rt p log = (md, log @ [p])"
  by (simp add: read_content_def fs_readFile_def)

lemma read_content_fs:
  "read_content rt p log =
     (case fst (fs_readFile rt p log) of Inr md \<Rightarrow> md | Inl e \<Rightarrow> ''File cannot be used'',
      snd (fs_readFile rt p log))"
  by (simp add: read_content_def fs_readFile_def split: sum.split)

lemma ArticleDetail_found:
  "find_article data params = Some a \<Longrightarrow>
     ArticleDetail rt data params log =
       (Rendered (article_page rt a (fst (read_content rt (filePath rt params) log))),
        snd (read_content rt (filePath rt params) log))"
  by (simp add: ArticleDetail_def split: prod.split)

lemma sample_find_1: "find_article articles_data \<lparr>Params.id' = ''1''\<rparr> = Some (articles_data ! 1)"
  by (simp add: find_article_def articles_data_def toString_def digit_char_def to_dec.simps)

lemma sample_read_1: "readFile sample_rt (filePath sample_rt \<lparr>Params.id' = ''1''\<rparr>) = Inl ENOENT"
  by (simp add: sample_rt_def filePath_def sample_join_def sample_files_def)

lemma ReactMarkdown_model: "markdown plugins md = Some html \<Longrightarrow> ReactMarkdown rt plugins md = html"
  by (simp add: ReactMarkdown_def)

lemma markdown_fallback:
  "markdown [remarkGfm] ''File cannot be used'' =
     Some (Element ''Fragment'' [] [Element ''p'' [] [TextNode ''File cannot be used'']])"
  by code_simp

lemma sample_fallback:
  "ReactMarkdown rt [remarkGfm] ''File cannot be used'' =
     Element ''Fragment'' [] [Element ''p'' [] [TextNode ''File cannot be used'']]"
  by (rule ReactMarkdown_model [OF markdown_fallback])

text \<open>
  C1. For every requested id that has a metadata entry but whose markdown file cannot
  be read (it is missing, or the read fails for another reason), the page takes the
  literal string \<^verbatim>\<open>File cannot be used\<close> as its content. No error escapes: the
  request ends with the rendered page, after its one read, and the rest of the page
  is as usual: the image with the article's image path and title, then the title and
  the date, then what the fallback string renders to.
\<close>

theorem ArticleDetail_unreadable_fallback:
  assumes "find_article data params = Some a"
    and "readFile rt (filePath rt params) = Inl e"
  shows "read_content rt (filePath rt params) log = (''File cannot be used'', log @ [filePath rt params])
    \<and> (\<exists>page. ArticleDetail rt data params log = (Rendered page, log @ [filePath rt params])
          \<and> contains page (ReactMarkdown rt [remarkGfm] ''File cannot be used'')
          \<and> (\<exists>ps. contains page (Element ''Image'' ps [])
                \<and> map_of ps ''src'' = Some (Str (image' a))
                \<and> map_of ps ''alt'' = Some (Str (title a)))
          \<and> texts page = [title a, date a] @ texts (ReactMarkdown rt [remarkGfm] ''File cannot be used''))"
proof -
  have c: "read_content rt (filePath rt params) log = (''File cannot be used'', log @ [filePath rt params])"
    using assms(2) by (rule read_content_Inl)
  have "\<exists>page. ArticleDetail rt data params log = (Rendered page, log @ [filePath rt params])
          \<and> contains page (ReactMarkdown rt [remarkGfm] ''File cannot be used'')
          \<and> (\<exists>ps. contains page (Element ''Image'' ps [])
                \<and> map_of ps ''src'' = Some (Str (image' a))
                \<and> map_of ps ''alt'' = Some (Str (title a)))
          \<and> texts page = [title a, date a] @ texts (ReactMarkdown rt [remarkGfm] ''File cannot be used'')"
    using c article_page_markdown [of rt a] article_page_image [of rt a] article_page_texts [of rt a]
    by (simp add: ArticleDetail_found [OF assms(1)])
  with c show ?thesis by blast
qed

theorem ArticleDetail_unreadable_fallback_witness:
  "find_article articles_data \<lparr>Params.id' = ''1''\<rparr> = Some (articles_data ! 1)
   \<and> readFile sample_rt (filePath sample_rt \<lparr>Params.id' = ''1''\<rparr>) = Inl ENOENT
   \<and> (\<exists>page. ArticleDetail sample_rt articles_data \<lparr>Params.id' = ''1''\<rparr> [] =
                 (Rendered page, [''/app/public/articles/1.md''])
          \<and> texts page = [''System Design: Designing the StarWidget'', ''April 29, 2025'', ''File cannot be used''])"
proof -
  have m: "texts (ReactMarkdown sample_rt [remarkGfm] ''File cannot be used'') = [''File cannot be used'']"
    by (simp add: sample_fallback)
  have p: "filePath sample_rt \<lparr>Params.id' = ''1''\<rparr> = ''/app/public/articles/1.md''"
    by (simp add: sample_rt_def filePath_def sample_join_def)
  have a: "title (articles_data ! 1) = ''System Design: Designing the StarWidget''"
    "date (articles_data ! 1) = ''April 29, 2025''"
    by (simp_all add: articles_data_def)
  from ArticleDetail_unreadable_fallback [OF sample_find_1 sample_read_1, of "[]", THEN conjunct2]
  show ?thesis using sample_find_1 sample_read_1 by (simp only: m p a append.simps) blast
qed

lemma sample_find_0: "find_article articles_data \<lparr>Params.id' = ''0''\<rparr> = Some (articles_data ! 0)"
  by (simp add: find_article_def articles_data_def toString_def digit_char_def to_dec.simps)

lemma sample_path_0: "filePath sample_rt \<lparr>Params.id' = ''0''\<rparr> = ''/app/public/articles/0.md''"
  by (simp add: sample_rt_def filePath_def sample_join_def)

lemma sample_read_0: "readFile sample_rt (filePath sample_rt \<lparr>Params.id' = ''0''\<rparr>) = Inr ''# Hello''"
  by (simp add: sample_path_0) (simp add: sample_rt_def sample_files_def)




section \<open>Blocks of a markdown text\<close>






lemma markdown_Hello:
  "markdown [remarkGfm] ''# Hello'' = Some (Element ''Fragment'' [] [Element ''h1'' [] [TextNode ''Hello'']])"
  by code_simp





text \<open>
  C8. For every request whose id matches a metadata entry, the page performs exactly
  one file read, at the path that joins the articles directory (the working directory
  joined with \<^verbatim>\<open>public/articles\<close>) with the requested id followed by
  \<^verbatim>\<open>.md\<close>: the outcome and the log of the request are those of one call of
  \<^verbatim>\<open>fs.readFile\<close> at that path, the content of the page being what the call
  returned, or the fallback when it failed. The read does not depend on what was read
  before: a second request for the same id reads again, on the file system as it is
  then, and shows what that read returns, so nothing is cached and nothing is retried.
\<close>

theorem ArticleDetail_reads_once:
  assumes "find_article data params = Some a"
  shows "Params.id' params = toString (article.id' a)
    \<and> filePath rt params =
        path_join rt (path_join rt (cwd rt) ''public/articles'') (toString (article.id' a) @ ''.md'')
    \<and> ArticleDetail rt data params log =
        (Rendered (article_page rt a
           (case fst (fs_readFile rt (filePath rt params) log) of
              Inr md \<Rightarrow> md | Inl e \<Rightarrow> ''File cannot be used'')),
         snd (fs_readFile rt (filePath rt params) log))
    \<and> snd (ArticleDetail rt data params log) = log @ [filePath rt params]
    \<and> ArticleDetail rt2 data params (snd (ArticleDetail rt data params log)) =
        (Rendered (article_page rt2 a
           (case readFile rt2 (filePath rt2 params) of
              Inr md \<Rightarrow> md | Inl e \<Rightarrow> ''File cannot be used'')),
         log @ [filePath rt params, filePath rt2 params])"
proof -
  from assms have i: "Params.id' params = toString (article.id' a)"
    by (simp add: find_article_Some)
  then have p: "filePath rt params =
      path_join rt (path_join rt (cwd rt) ''public/articles'') (toString (article.id' a) @ ''.md'')"
    by (simp add: filePath_def)
  have o: "ArticleDetail r data params l =
        (Rendered (article_page r a
           (case fst (fs_readFile r (filePath r params) l) of
              Inr md \<Rightarrow> md | Inl e \<Rightarrow> ''File cannot be used'')),
         snd (fs_readFile r (filePath r params) l))" for r l
    by (simp add: ArticleDetail_found [OF assms] read_content_fs)
  have s: "snd (ArticleDetail rt data params log) = log @ [filePath rt params]"
    by (simp add: o fs_readFile_def)
  have "ArticleDetail rt2 data params (snd (ArticleDetail rt data params log)) =
        (Rendered (article_page rt2 a
           (case readFile rt2 (filePath rt2 params) of
              Inr md \<Rightarrow> md | Inl e \<Rightarrow> ''File cannot be used'')),
         log @ [filePath rt params, filePath rt2 params])"
    by (simp add: s) (simp add: o fs_readFile_def)
  with i p o [of rt log] s show ?thesis by blast
qed

theorem ArticleDetail_reads_once_witness:
  "find_article articles_data \<lparr>Params.id' = ''0''\<rparr> = Some (articles_data ! 0)
   \<and> filePath sample_rt \<lparr>Params.id' = ''0''\<rparr> = ''/app/public/articles/0.md''
   \<and> snd (ArticleDetail sample_rt articles_data \<lparr>Params.id' = ''0''\<rparr> []) = [''/app/public/articles/0.md'']
   \<and> snd (ArticleDetail sample_rt articles_data \<lparr>Params.id' = ''0''\<rparr>
            (snd (ArticleDetail sample_rt articles_data \<lparr>Params.id' = ''0''\<rparr> []))) =
       [''/app/public/articles/0.md'', ''/app/public/articles/0.md'']"
proof -
  note r = ArticleDetail_reads_once [OF sample_find_0, of sample_rt "[]" sample_rt]
  from r have "snd (ArticleDetail sample_rt articles_data \<lparr>Params.id' = ''0''\<rparr> []) =
      [] @ [filePath sample_rt \<lparr>Params.id' = ''0''\<rparr>]"
    by blast
  moreover from r have "ArticleDetail sample_rt articles_data \<lparr>Params.id' = ''0''\<rparr>
            (snd (ArticleDetail sample_rt articles_data \<lparr>Params.id' = ''0''\<rparr> [])) =
      (Rendered (article_page sample_rt (articles_data ! 0)
           (case readFile sample_rt (filePath sample_rt \<lparr>Params.id' = ''0''\<rparr>) of
              Inr md \<Rightarrow> md | Inl e \<Rightarrow> ''File cannot be used'')),
       [] @ [filePath sample_rt \<lparr>Params.id' = ''0''\<rparr>, filePath sample_rt \<lparr>Params.id' = ''0''\<rparr>])"
    by blast
  then have "snd (ArticleDetail sample_rt articles_data \<lparr>Params.id' = ''0''\<rparr>
            (snd (ArticleDetail sample_rt articles_data \<lparr>Params.id' = ''0''\<rparr> []))) =
      [] @ [filePath sample_rt \<lparr>Params.id' = ''0''\<rparr>, filePath sample_rt \<lparr>Params.id' = ''0''\<rparr>]"
    by (simp only: snd_conv)
  ultimately show ?thesis using sample_find_0 sample_path_0 by (simp only: append.simps)
qed

lemma denoted_examples:
  "denoted_number ''1 '' = Some 1" "denoted_number ''07'' = Some 7"
  by (simp_all add: denoted_number_def trim_def is_space_def digits_value_def is_digit_def
        dec_value_def digit_val_def)

lemma toString_examples: "toString 1 = ''1''" "toString 7 = ''7''"
  by (simp_all add: toString_def to_dec.simps digit_char_def)

text \<open>
  C9. The lookup compares the requested string with the exact decimal rendering of
  each id. A request string that denotes a number without being the canonical decimal
  form of that number (\<^verbatim>\<open>07\<close> for 7, or \<^verbatim>\<open>1\<close> followed by a space for 1)
  matches no entry, whatever the list holds: the outcome is not-found.
\<close>

theorem ArticleDetail_noncanonical_not_found:
  assumes "denoted_number s = Some n" and "s \<noteq> toString n"
  shows "ArticleDetail rt data \<lparr>Params.id' = s\<rparr> log = (NotFound, log)"
proof -
  have "toString (article.id' a) \<noteq> s" for a :: article
  proof
    assume e: "toString (article.id' a) = s"
    then have "denoted_number s = Some (article.id' a)"
      using denoted_number_toString [of "article.id' a"] by simp
    with assms(1) have "article.id' a = n" by simp
    with e assms(2) show False by simp
  qed
  then have "\<forall>a \<in> set data. toString (article.id' a) \<noteq> Params.id' \<lparr>Params.id' = s\<rparr>"
    by simp
  then have "find_article data \<lparr>Params.id' = s\<rparr> = None"
    by (rule find_article_None [THEN iffD2])
  then show ?thesis by (simp add: ArticleDetail_def)
qed

theorem ArticleDetail_noncanonical_not_found_witness:
  "denoted_number ''1 '' = Some 1 \<and> ''1 '' \<noteq> toString 1
   \<and> ArticleDetail sample_rt articles_data \<lparr>Params.id' = ''1 ''\<rparr> [] = (NotFound, [])
   \<and> denoted_number ''07'' = Some 7 \<and> ''07'' \<noteq> toString 7
   \<and> ArticleDetail sample_rt articles_data \<lparr>Params.id' = ''07''\<rparr> [] = (NotFound, [])"
proof -
  have a: "''1 '' \<noteq> toString 1" and b: "''07'' \<noteq> toString 7"
    by (simp_all add: toString_examples)
  from ArticleDetail_noncanonical_not_found [OF denoted_examples(1) a, of sample_rt articles_data "[]"]
    ArticleDetail_noncanonical_not_found [OF denoted_examples(2) b, of sample_rt articles_data "[]"]
    denoted_examples a b
  show ?thesis by blast
qed

text \<open>
  C3 as stated, with the tags among the fields the detail view returns, fails on the
  first article of the list: its three tags occur nowhere in the page rendered for
  \<^verbatim>\<open>0\<close>, and the page is the same when the article has no tags at all.
\<close>

theorem detail_view_omits_tags:
  "find_article articles_data \<lparr>Params.id' = ''0''\<rparr> = Some (articles_data ! 0)
   \<and> tags (articles_data ! 0) = [''React'', ''Architecture'', ''Performance'']
   \<and> ''React'' \<notin> set (rendered_strings (fst (ArticleDetail sample_rt articles_data \<lparr>Params.id' = ''0''\<rparr> [])))
   \<and> ''Architecture'' \<notin> set (rendered_strings (fst (ArticleDetail sample_rt articles_data \<lparr>Params.id' = ''0''\<rparr> [])))
   \<and> ''Performance'' \<notin> set (rendered_strings (fst (ArticleDetail sample_rt articles_data \<lparr>Params.id' = ''0''\<rparr> [])))
   \<and> fst (ArticleDetail sample_rt [(articles_data ! 0)\<lparr>tags := []\<rparr>] \<lparr>Params.id' = ''0''\<rparr> []) =
       fst (ArticleDetail sample_rt [articles_data ! 0] \<lparr>Params.id' = ''0''\<rparr> [])"
proof -
  have c: "read_content sample_rt (filePath sample_rt \<lparr>Params.id' = ''0''\<rparr>) [] =
      (''# Hello'', [] @ [filePath sample_rt \<lparr>Params.id' = ''0''\<rparr>])"
    by (rule read_content_Inr [OF sample_read_0])
  have m: "ReactMarkdown sample_rt [remarkGfm] ''# Hello'' =
      Element ''Fragment'' [] [Element ''h1'' [] [TextNode ''Hello'']]"
    by (rule ReactMarkdown_model [OF markdown_Hello])
  have s: "rendered_strings (fst (ArticleDetail sample_rt articles_data \<lparr>Params.id' = ''0''\<rparr> [])) =
     [''m'', ''l'', ''articleImageContainer'', ''/images/articles/img1.jpg'',
      ''Building Scalable React Applications'', ''articleImage'', ''heading-default-xl'',
      ''articleTitle'', ''Building Scalable React Applications'', ''body-default-s'',
      ''text-neutral-500'', ''May 15, 2024'', ''articleContent'', ''Hello'']"
    by (simp add: ArticleDetail_found [OF sample_find_0] c article_page_def m)
       (simp add: articles_data_def sample_rt_def)
  have t: "tags (articles_data ! 0) = [''React'', ''Architecture'', ''Performance'']"
    by (simp add: articles_data_def)
  have e: "fst (ArticleDetail sample_rt [(articles_data ! 0)\<lparr>tags := []\<rparr>] \<lparr>Params.id' = ''0''\<rparr> []) =
       fst (ArticleDetail sample_rt [articles_data ! 0] \<lparr>Params.id' = ''0''\<rparr> [])"
    by (simp add: ArticleDetail_def find_article_def article_page_def split: prod.split)
  show ?thesis
    by (simp only: s t e sample_find_0) simp
qed

lemma find_article_tags:
  "find_article (map (\<lambda>b. b\<lparr>tags := g b\<rparr>) data) params =
     map_option (\<lambda>b. b\<lparr>tags := g b\<rparr>) (find_article data params)"
  by (induction data) (simp_all add: find_article_def)

lemma article_page_tags: "article_page rt (a\<lparr>tags := ts\<rparr>) content = article_page rt a content"
  by (simp add: article_page_def)

lemma ArticleDetail_tags:
  "ArticleDetail rt (map (\<lambda>b. b\<lparr>tags := g b\<rparr>) data) params log = ArticleDetail rt data params log"
  by (cases "find_article data params")
     (simp_all add: ArticleDetail_def find_article_tags article_page_tags)

text \<open>
  C3, amended. For every id present in the metadata list, the lookup returns the entry
  of the list with that id, and the detail view shows the title, the date and the
  image of that entry unchanged (the image path and the title on the image, then the
  title and the date as the first two texts of the page). The tags are not part of
  the detail view: its outcome is the same whatever the tags of the entries are. The
  lookup is pure: a repeated request for the same id gives the same outcome.
\<close>

theorem ArticleDetail_shows_metadata:
  assumes "a \<in> set data" and "distinct (map article.id' data)"
    and "Params.id' params = toString (article.id' a)"
  shows "find_article data params = Some a
    \<and> (\<exists>page. fst (ArticleDetail rt data params log) = Rendered page
          \<and> (\<exists>ps. contains page (Element ''Image'' ps [])
                \<and> map_of ps ''src'' = Some (Str (image' a))
                \<and> map_of ps ''alt'' = Some (Str (title a)))
          \<and> take 2 (texts page) = [title a, date a])
    \<and> fst (ArticleDetail rt (map (\<lambda>b. b\<lparr>tags := g b\<rparr>) data) params log) =
        fst (ArticleDetail rt data params log)
    \<and> fst (ArticleDetail rt data params (snd (ArticleDetail rt data params log))) =
        fst (ArticleDetail rt data params log)"
proof -
  have "params = \<lparr>Params.id' = toString (article.id' a)\<rparr>"
    using assms(3) by simp
  with find_article_distinct [OF assms(2,1)] have f: "find_article data params = Some a"
    by simp
  define content where "content = fst (read_content rt (filePath rt params) log)"
  let ?page = "article_page rt a content"
  have c: "fst (read_content rt (filePath rt params) l) = content" for l
    by (simp add: content_def read_content_fs fs_readFile_def)
  have o: "fst (ArticleDetail rt data params l) = Rendered ?page" for l
    by (simp add: ArticleDetail_found [OF f] c)
  have "take 2 (texts ?page) = [title a, date a]"
    by (simp add: article_page_texts)
  with o [of log] article_page_image [of rt a content]
  have "\<exists>page. fst (ArticleDetail rt data params log) = Rendered page
          \<and> (\<exists>ps. contains page (Element ''Image'' ps [])
                \<and> map_of ps ''src'' = Some (Str (image' a))
                \<and> map_of ps ''alt'' = Some (Str (title a)))
          \<and> take 2 (texts page) = [title a, date a]"
    by simp
  moreover have "fst (ArticleDetail rt data params (snd (ArticleDetail rt data params log))) =
        fst (ArticleDetail rt data params log)"
    by (simp only: o)
  moreover have "fst (ArticleDetail rt (map (\<lambda>b. b\<lparr>tags := g b\<rparr>) data) params log) =
        fst (ArticleDetail rt data params log)"
    by (simp only: ArticleDetail_tags)
  ultimately show ?thesis using f by blast
qed

theorem ArticleDetail_shows_metadata_witness:
  "articles_data ! 0 \<in> set articles_data
   \<and> distinct (map article.id' articles_data)
   \<and> Params.id' \<lparr>Params.id' = ''0''\<rparr> = toString (article.id' (articles_data ! 0))
   \<and> find_article articles_data \<lparr>Params.id' = ''0''\<rparr> = Some (articles_data ! 0)
   \<and> (\<exists>page. fst (ArticleDetail sample_rt articles_data \<lparr>Params.id' = ''0''\<rparr> []) = Rendered page
          \<and> take 2 (texts page) = [''Building Scalable React Applications'', ''May 15, 2024''])"
proof -
  have m: "articles_data ! 0 \<in> set articles_data"
    by (simp add: articles_data_def)
  have i: "Params.id' \<lparr>Params.id' = ''0''\<rparr> = toString (article.id' (articles_data ! 0))"
    by (simp add: articles_data_def toString_def to_dec.simps digit_char_def)
  have a: "title (articles_data ! 0) = ''Building Scalable React Applications''"
    "date (articles_data ! 0) = ''May 15, 2024''"
    by (simp_all add: articles_data_def)
  note r = ArticleDetail_shows_metadata [OF m articles_data_distinct i, of sample_rt "[]", unfolded a]
  from r m articles_data_distinct i show ?thesis by blast
qed

text \<open>
  C10. The ids of the metadata list are pairwise distinct, and navigation from the
  list to the detail page round-trips: for every article of the list, its id rendered
  to a string is among the static params, it is the id the list page links the
  article under, and the lookup of the detail view on that string returns that same
  article, never not-found.
\<close>

theorem list_detail_roundtrip:
  "distinct (map article.id' articles_data)
   \<and> (\<forall>a \<in> set articles_data.
        \<lparr>Params.id' = toString (article.id' a)\<rparr> \<in> set (generateStaticParams articles_data)
        \<and> prop_of ''href'' (article_entry index a) = Some (Str (''/articles/'' @ toString (article.id' a)))
        \<and> find_article articles_data \<lparr>Params.id' = toString (article.id' a)\<rparr> = Some a
        \<and> fst (ArticleDetail rt articles_data \<lparr>Params.id' = toString (article.id' a)\<rparr> log) \<noteq> NotFound)"
proof (intro conjI ballI)
  show d: "distinct (map article.id' articles_data)" by (rule articles_data_distinct)
  fix a assume a: "a \<in> set articles_data"
  then show "\<lparr>Params.id' = toString (article.id' a)\<rparr> \<in> set (generateStaticParams articles_data)"
    by (auto simp: generateStaticParams_def)
  show "prop_of ''href'' (article_entry index a) = Some (Str (''/articles/'' @ toString (article.id' a)))"
    by (simp add: article_entry_def)
  show f: "find_article articles_data \<lparr>Params.id' = toString (article.id' a)\<rparr> = Some a"
    using d a by (rule find_article_distinct)
  show "fst (ArticleDetail rt articles_data \<lparr>Params.id' = toString (article.id' a)\<rparr> log) \<noteq> NotFound"
    by (simp add: ArticleDetail_found [OF f])
qed

theorem list_detail_roundtrip_witness:
  "articles_data ! 2 \<in> set articles_data
   \<and> toString (article.id' (articles_data ! 2)) = ''2''
   \<and> find_article articles_data \<lparr>Params.id' = ''2''\<rparr> = Some (articles_data ! 2)
   \<and> fst (ArticleDetail sample_rt articles_data \<lparr>Params.id' = ''2''\<rparr> []) \<noteq> NotFound"
proof -
  have m: "articles_data ! 2 \<in> set articles_data"
    by (simp add: articles_data_def)
  have t: "toString (article.id' (articles_data ! 2)) = ''2''"
    by (simp add: articles_data_def toString_def to_dec.simps digit_char_def)
  note r = list_detail_roundtrip [of 2 sample_rt "[]", THEN conjunct2, THEN bspec, OF m, unfolded t]
  from r m t show ?thesis by blast
qed

section \<open>The navigation and the list page\<close>

lemma Header_toggles:
  "elements_named ''ToggleButton'' (Header routes current) =
     (let pathname = (case current of Some p \<Rightarrow> p | None \<Rightarrow> '''') in
      (if routes ''/''
       then [Element ''ToggleButton''
               [(''prefixIcon'', Str ''home''), (''href'', Str ''/''),
                (''selected'', Flag (pathname = ''/''))] []]
       else [])
      @ (if routes ''/about''
         then [Element ''ToggleButton''
                 [(''className'', Str ''s-flex-hide''), (''prefixIcon'', Str ''person''),
                  (''href'', Str ''/about''), (''label'', Str about_label),
                  (''selected'', Flag (pathname = ''/about''))] [],
               Element ''ToggleButton''
                 [(''className'', Str ''s-flex-show''), (''prefixIcon'', Str ''person''),
                  (''href'', Str ''/about''),
                  (''selected'', Flag (pathname = ''/about''))] []]
         else [])
      @ (if routes ''/articles''
         then [Element ''ToggleButton''
                 [(''className'', Str ''s-flex-hide''), (''prefixIcon'', Str ''document''),
                  (''href'', Str ''/articles''), (''label'', Str articles_label),
                  (''selected'', Flag (prefix ''/articles'' pathname))] [],
               Element ''ToggleButton''
                 [(''className'', Str ''s-flex-show''), (''prefixIcon'', Str ''document''),
                  (''href'', Str ''/articles''),
                  (''selected'', Flag (prefix ''/articles'' pathname))] []]
         else []))"
  by (simp add: Header_def Let_def)

lemma Header_nav_hrefs:
  "nav_hrefs (Header routes current) =
     (if routes ''/'' then [''/''] else [])
     @ (if routes ''/about'' then [''/about'', ''/about''] else [])
     @ (if routes ''/articles'' then [''/articles'', ''/articles''] else [])"
  by (simp add: nav_hrefs_def Header_toggles Let_def entry_href_def)

lemma Header_highlighted:
  "highlighted (Header routes current) =
     (let pathname = (case current of Some p \<Rightarrow> p | None \<Rightarrow> '''') in
      (if routes ''/'' \<and> pathname = ''/'' then [''/''] else [])
      @ (if routes ''/about'' \<and> pathname = ''/about'' then [''/about'', ''/about''] else [])
      @ (if routes ''/articles'' \<and> prefix ''/articles'' pathname then [''/articles'', ''/articles''] else []))"
  by (auto simp: highlighted_def Header_toggles Let_def selected_href_def entry_href_def)

text \<open>
  C6. For every current path, an entry of the navigation is highlighted exactly when
  the path matches it: the home entry when the path is \<^verbatim>\<open>/\<close>, the about entry
  when the path is \<^verbatim>\<open>/about\<close> (string equality), and the articles entry when
  the path starts with \<^verbatim>\<open>/articles\<close> (prefix). The entries are those of the
  enabled routes, only entries are highlighted, and without a current path none is.
\<close>

theorem Header_highlight:
  "(''/'' \<in> set (highlighted (Header routes (Some p))) \<longleftrightarrow> routes ''/'' \<and> p = ''/'')
   \<and> (''/about'' \<in> set (highlighted (Header routes (Some p))) \<longleftrightarrow> routes ''/about'' \<and> p = ''/about'')
   \<and> (''/articles'' \<in> set (highlighted (Header routes (Some p))) \<longleftrightarrow>
        routes ''/articles'' \<and> prefix ''/articles'' p)
   \<and> set (highlighted (Header routes (Some p))) \<subseteq> set (nav_hrefs (Header routes (Some p)))
   \<and> set (nav_hrefs (Header routes (Some p))) = {r \<in> {''/'', ''/about'', ''/articles''}. routes r}
   \<and> highlighted (Header routes None) = []"
proof (intro conjI)
  show "''/'' \<in> set (highlighted (Header routes (Some p))) \<longleftrightarrow> routes ''/'' \<and> p = ''/''"
    by (simp add: Header_highlighted)
  show "''/about'' \<in> set (highlighted (Header routes (Some p))) \<longleftrightarrow> routes ''/about'' \<and> p = ''/about''"
    by (simp add: Header_highlighted)
  show "''/articles'' \<in> set (highlighted (Header routes (Some p))) \<longleftrightarrow>
        routes ''/articles'' \<and> prefix ''/articles'' p"
    by (simp add: Header_highlighted)
  show "set (highlighted (Header routes (Some p))) \<subseteq> set (nav_hrefs (Header routes (Some p)))"
    by (auto simp: Header_highlighted Header_nav_hrefs)
  show "set (nav_hrefs (Header routes (Some p))) = {r \<in> {''/'', ''/about'', ''/articles''}. routes r}"
    by (auto simp: Header_nav_hrefs)
  show "highlighted (Header routes None) = []"
    by (simp add: Header_highlighted)
qed

theorem Header_highlight_witness:
  "highlighted (Header (\<lambda>r. True) (Some ''/articles/1'')) = [''/articles'', ''/articles'']
   \<and> ''/articles'' \<in> set (highlighted (Header (\<lambda>r. True) (Some ''/articles/1'')))
   \<and> prefix ''/articles'' ''/articles/1''
   \<and> ''/about'' \<notin> set (highlighted (Header (\<lambda>r. True) (Some ''/articles/1'')))"
proof -
  have h: "highlighted (Header (\<lambda>r. True) (Some ''/articles/1'')) = [''/articles'', ''/articles'']"
    by (simp add: Header_highlighted)
  have p: "prefix ''/articles'' ''/articles/1''" by simp
  from Header_highlight [of "\<lambda>r. True" "''/articles/1''"] h p show ?thesis by simp
qed

lemma tag_texts: "concat (map (texts \<circ> (\<lambda>(i, t). Element m (ps i) [TextNode t])) (enumerate n xs)) = xs"
  by (induction xs arbitrary: n) simp_all

lemma tag_links: "m \<noteq> k \<Longrightarrow>
  concat (map (elements_named k \<circ> (\<lambda>(i, t). Element m (ps i) [TextNode t])) (enumerate n xs)) = []"
  by (induction xs arbitrary: n) simp_all

lemma article_entry_texts:
  "texts (article_entry index a) = [date a, title a, description a] @ tags a"
  by (simp add: article_entry_def tag_texts)

lemma article_entry_links:
  "elements_named ''Link'' (article_entry index a) = [article_entry index a]"
  by (simp add: article_entry_def tag_links)

lemma entries_links:
  "concat (map (elements_named ''Link'' \<circ> (\<lambda>(index, a). article_entry index a)) (enumerate n data)) =
     map (\<lambda>(index, a). article_entry index a) (enumerate n data)"
  by (induction data arbitrary: n) (simp_all add: article_entry_links)

lemma entries_texts:
  "concat (map (texts \<circ> (\<lambda>(index, a). article_entry index a)) (enumerate n data)) =
     concat (map (\<lambda>a. [date a, title a, description a] @ tags a) data)"
  by (induction data arbitrary: n) (simp_all add: article_entry_texts)

lemma Articles_links:
  "elements_named ''Link'' (Articles (Some data)) =
     map (\<lambda>(index, a). article_entry index a) (enumerate 0 data)"
  by (simp add: Articles_def entries_links empty_state_def)

text \<open>
  C5. The list page is a projection of the metadata list. It renders one link per
  record, in the order of the list; the link of a record leads to
  \<^verbatim>\<open>/articles/\<close> followed by its id and shows its date, its title, its
  description and its tags. A non-empty list renders nothing but these entries; an
  empty (or undefined) list renders the empty-state message instead.
\<close>

theorem Articles_projection:
  "length (elements_named ''Link'' (Articles (Some data))) = length data
   \<and> (\<forall>i < length data.
        prop_of ''href'' (elements_named ''Link'' (Articles (Some data)) ! i) =
          Some (Str (''/articles/'' @ toString (article.id' (data ! i))))
        \<and> texts (elements_named ''Link'' (Articles (Some data)) ! i) =
            [date (data ! i), title (data ! i), description (data ! i)] @ tags (data ! i))
   \<and> (data \<noteq> [] \<longrightarrow>
        texts (Articles (Some data)) = concat (map (\<lambda>a. [date a, title a, description a] @ tags a) data))
   \<and> (data = [] \<longrightarrow>
        texts (Articles (Some data)) =
          [''Coming Soon'',
           ''No articles available at the moment. Check back later for tech articles and tutorials.''])
   \<and> Articles None = Articles (Some [])"
proof (intro conjI allI impI)
  show "length (elements_named ''Link'' (Articles (Some data))) = length data"
    by (simp add: Articles_links)
next
  fix i assume i: "i < length data"
  then have e: "elements_named ''Link'' (Articles (Some data)) ! i = article_entry i (data ! i)"
    by (simp add: Articles_links nth_enumerate_eq)
  show "prop_of ''href'' (elements_named ''Link'' (Articles (Some data)) ! i) =
          Some (Str (''/articles/'' @ toString (article.id' (data ! i))))"
    by (simp add: e) (simp add: article_entry_def)
  show "texts (elements_named ''Link'' (Articles (Some data)) ! i) =
            [date (data ! i), title (data ! i), description (data ! i)] @ tags (data ! i)"
    by (simp only: e article_entry_texts)
next
  assume "data \<noteq> []"
  then show "texts (Articles (Some data)) = concat (map (\<lambda>a. [date a, title a, description a] @ tags a) data)"
    by (simp add: Articles_def entries_texts)
next
  assume "data = []"
  then show "texts (Articles (Some data)) =
          [''Coming Soon'',
           ''No articles available at the moment. Check back later for tech articles and tutorials.'']"
    by (simp add: Articles_def empty_state_def)
next
  show "Articles None = Articles (Some [])"
    by (simp add: Articles_def)
qed

theorem Articles_projection_witness:
  "(1::nat) < length articles_data
   \<and> length (elements_named ''Link'' (Articles (Some articles_data))) = 3
   \<and> prop_of ''href'' (elements_named ''Link'' (Articles (Some articles_data)) ! 1) = Some (Str ''/articles/1'')
   \<and> texts (elements_named ''Link'' (Articles (Some articles_data)) ! 1) =
       [''April 29, 2025'', ''System Design: Designing the StarWidget'',
        ''A comprehensive guide to migrating your Vue 2 application to Next.js, including strategies for handling state, routing, and server-side rendering. Learn how to plan and execute a phased migration while maintaining application functionality.'',
        ''System Design'']
   \<and> texts (Articles (Some [])) =
       [''Coming Soon'',
        ''No articles available at the moment. Check back later for tech articles and tutorials.'']"
proof -
  have l: "(1::nat) < length articles_data" "length articles_data = 3"
    by (simp_all add: articles_data_def)
  have a: "toString (article.id' (articles_data ! 1)) = ''1''"
    "date (articles_data ! 1) = ''April 29, 2025''"
    "title (articles_data ! 1) = ''System Design: Designing the StarWidget''"
    "description (articles_data ! 1) = ''A comprehensive guide to migrating your Vue 2 application to Next.js, including strategies for handling state, routing, and server-side rendering. Learn how to plan and execute a phased migration while maintaining application functionality.''"
    "tags (articles_data ! 1) = [''System Design'']"
    by (simp_all add: articles_data_def toString_def to_dec.simps digit_char_def)
  note r = Articles_projection [of articles_data]
  note e = Articles_projection [of "[]"]
  from r l have n: "length (elements_named ''Link'' (Articles (Some articles_data))) = 3" by simp
  from r l(1) have
    "prop_of ''href'' (elements_named ''Link'' (Articles (Some articles_data)) ! 1) =
          Some (Str (''/articles/'' @ toString (article.id' (articles_data ! 1))))
     \<and> texts (elements_named ''Link'' (Articles (Some articles_data)) ! 1) =
            [date (articles_data ! 1), title (articles_data ! 1), description (articles_data ! 1)]
            @ tags (articles_data ! 1)"
    by blast
  then have h: "prop_of ''href'' (elements_named ''Link'' (Articles (Some articles_data)) ! 1) =
          Some (Str ''/articles/1'')
     \<and> texts (elements_named ''Link'' (Articles (Some articles_data)) ! 1) =
       [''April 29, 2025'', ''System Design: Designing the StarWidget'',
        ''A comprehensive guide to migrating your Vue 2 application to Next.js, including strategies for handling state, routing, and server-side rendering. Learn how to plan and execute a phased migration while maintaining application functionality.'',
        ''System Design'']"
    by (simp only: a append.simps)
  from e have "texts (Articles (Some [])) =
       [''Coming Soon'',
        ''No articles available at the moment. Check back later for tech articles and tutorials.'']"
    by blast
  with n h l(1) show ?thesis by blast
qed

section \<open>The clock\<close>

lemma elapse_Suc_tick: "elapse fmt (Suc n) w = tick fmt (elapse fmt n w)"
  by (induction n arbitrary: w) simp_all

lemma tick_idle:
  assumes "intervals w = []"
  shows "intervals (tick fmt w) = [] \<and> updates (tick fmt w) = updates w
     \<and> currentTime (tick fmt w) = currentTime w \<and> now (tick fmt w) = now w + 1"
  using assms by (simp add: tick_def Let_def)

lemma elapse_idle:
  assumes "intervals w = []"
  shows "intervals (elapse fmt m w) = [] \<and> updates (elapse fmt m w) = updates w
     \<and> currentTime (elapse fmt m w) = currentTime w"
  using assms
proof (induction m arbitrary: w)
  case 0
  then show ?case by simp
next
  case (Suc m)
  from tick_idle [OF Suc.prems, of fmt] Suc.IH [of "tick fmt w"] show ?case by simp
qed

lemma running_mount:
  assumes "intervals w = []"
  shows "running fmt props w 0 (mount fmt props w)"
  using assms
  by (simp add: running_def mount_def TimeDisplay_effect_def setInterval_def updateTime_def Let_def shown_def)

lemma due_iff: "now0 + Suc n = now0 + 1000 * Suc (n div 1000) \<longleftrightarrow> Suc n mod 1000 = 0"
proof -
  define q r where "q = n div 1000" and "r = n mod 1000"
  have n: "n = 1000 * q + r" and r: "r < 1000" by (simp_all add: q_def r_def)
  have "Suc n mod 1000 = 0 \<longleftrightarrow> Suc r = 1000"
    unfolding r_def by (simp add: mod_Suc)
  moreover have "now0 + Suc n = now0 + 1000 * Suc q \<longleftrightarrow> Suc r = 1000"
    using n by simp
  ultimately show ?thesis by (simp add: q_def)
qed

lemma tick_single:
  assumes "intervals v = [t]"
  shows "now (tick fmt v) = now v + 1"
    and "cleanup (tick fmt v) = cleanup v"
    and "due t = now v + 1 \<Longrightarrow>
           intervals (tick fmt v) = [t\<lparr>due := due t + delay t\<rparr>]
           \<and> updates (tick fmt v) = updates v @ [(now v + 1, shown fmt (captured t) (now v + 1))]
           \<and> currentTime (tick fmt v) = shown fmt (captured t) (now v + 1)"
    and "due t \<noteq> now v + 1 \<Longrightarrow>
           intervals (tick fmt v) = [t] \<and> updates (tick fmt v) = updates v
           \<and> currentTime (tick fmt v) = currentTime v"
  using assms
  by (simp_all add: tick_def Let_def fire_def reschedule_def updateTime_def shown_def)

lemma running_tick:
  assumes "running fmt props w n v"
  shows "running fmt props w (Suc n) (tick fmt v)"
proof -
  define q where "q = n div 1000"
  define t where "t = \<lparr>interval_id = next_id w, delay = 1000, due = now w + 1000 * Suc q, captured = props\<rparr>"
  let ?f = "\<lambda>k. (now w + 1000 * k, shown fmt props (now w + 1000 * k))"
  from assms have v: "now v = now w + n" "intervals v = [t]" "cleanup v = Some (next_id w)"
    "updates v = updates w @ map ?f [0..<Suc q]" "currentTime v = shown fmt props (now w + 1000 * q)"
    by (simp_all add: running_def q_def t_def)
  have t: "due t = now w + 1000 * Suc q" "delay t = 1000" "captured t = props"
    by (simp_all add: t_def)
  note k = tick_single [OF v(2), of fmt]
  show ?thesis
  proof (cases "Suc n mod 1000 = 0")
    case True
    then have d: "Suc n div 1000 = Suc q" by (simp add: div_Suc q_def)
    from True have e: "now w + Suc n = now w + 1000 * Suc q" by (simp only: due_iff q_def)
    then have "due t = now v + 1" by (simp add: t v)
    from k(3) [OF this] have
      i: "intervals (tick fmt v) = [t\<lparr>due := due t + delay t\<rparr>]"
      and u: "updates (tick fmt v) = updates v @ [(now v + 1, shown fmt (captured t) (now v + 1))]"
      and c: "currentTime (tick fmt v) = shown fmt (captured t) (now v + 1)"
      by blast+
    have n1: "now v + 1 = now w + 1000 * Suc q" using e v(1) by simp
    have "t\<lparr>due := due t + delay t\<rparr> =
       \<lparr>interval_id = next_id w, delay = 1000, due = now w + 1000 * Suc (Suc q), captured = props\<rparr>"
      by (simp add: t_def)
    with i have i': "intervals (tick fmt v) =
       [\<lparr>interval_id = next_id w, delay = 1000, due = now w + 1000 * Suc (Suc q), captured = props\<rparr>]"
      by simp
    have u': "updates (tick fmt v) = updates w @ map ?f [0..<Suc (Suc q)]"
      by (simp only: u v(4) n1 t(3)) simp
    have c': "currentTime (tick fmt v) = shown fmt props (now w + 1000 * Suc q)"
      by (simp only: c n1 t(3))
    have "now (tick fmt v) = now w + Suc n" using k(1) v(1) by simp
    with i' u' c' k(2) v(3) show ?thesis
      unfolding running_def d by simp
  next
    case False
    then have d: "Suc n div 1000 = q" by (simp add: div_Suc q_def)
    from False have "now w + Suc n \<noteq> now w + 1000 * Suc q" by (simp only: due_iff q_def) simp
    then have "due t \<noteq> now v + 1" by (simp add: t v)
    from k(4) [OF this] have
      i: "intervals (tick fmt v) = [t]"
      and u: "updates (tick fmt v) = updates v"
      and c: "currentTime (tick fmt v) = currentTime v"
      by blast+
    have "now (tick fmt v) = now w + Suc n" using k(1) v(1) by simp
    with i u c k(2) v show ?thesis
      unfolding running_def d t_def by simp
  qed
qed

lemma running_elapse:
  assumes "intervals w = []"
  shows "running fmt props w n (elapse fmt n (mount fmt props w))"
proof (induction n)
  case 0
  show ?case using running_mount [OF assms] by simp
next
  case (Suc n)
  then show ?case by (simp only: elapse_Suc_tick running_tick)
qed

lemma running_unmount:
  assumes "running fmt props w n v"
  shows "intervals (unmount v) = [] \<and> updates (unmount v) = updates v
     \<and> currentTime (unmount v) = currentTime v \<and> cleanup (unmount v) = None"
  using assms by (simp add: running_def unmount_def clearInterval_def)

text \<open>
  C7. While the clock is mounted its display is updated once per second: mounted at
  time \<open>t\<close> with no other timer registered, it has updated the display, \<open>n\<close>
  milliseconds later, exactly at the times \<open>t\<close>, \<open>t + 1000\<close>, \<open>t + 2000\<close>, ... up
  to \<open>t + n\<close>, and shows the string for the last of them. Unmounting cancels the
  timer: no timer is left, and however much time passes afterwards the display is
  not updated again.
\<close>

theorem TimeDisplay_ticks_until_unmount:
  assumes "intervals w = []"
  shows "map fst (updates (elapse fmt n (mount fmt props w))) =
           map fst (updates w) @ map (\<lambda>k. now w + 1000 * k) [0..<Suc (n div 1000)]
    \<and> currentTime (elapse fmt n (mount fmt props w)) =
        fmt (case locale' props of Some l \<Rightarrow> l | None \<Rightarrow> ''en-GB'') (timeZone props)
          (now w + 1000 * (n div 1000))
    \<and> intervals (unmount (elapse fmt n (mount fmt props w))) = []
    \<and> updates (elapse fmt m (unmount (elapse fmt n (mount fmt props w)))) =
        updates (elapse fmt n (mount fmt props w))
    \<and> currentTime (elapse fmt m (unmount (elapse fmt n (mount fmt props w)))) =
        currentTime (elapse fmt n (mount fmt props w))"
proof -
  let ?v = "elapse fmt n (mount fmt props w)"
  have r: "running fmt props w n ?v" by (rule running_elapse [OF assms])
  then have u: "updates ?v =
      updates w @ map (\<lambda>k. (now w + 1000 * k, shown fmt props (now w + 1000 * k))) [0..<Suc (n div 1000)]"
    and c: "currentTime ?v = shown fmt props (now w + 1000 * (n div 1000))"
    by (simp_all add: running_def)
  have "map fst (updates ?v) = map fst (updates w) @ map (\<lambda>k. now w + 1000 * k) [0..<Suc (n div 1000)]"
    by (simp only: u map_append map_map) (simp add: comp_def)
  moreover note c [unfolded shown_def]
  moreover from running_unmount [OF r] have i: "intervals (unmount ?v) = []"
    and k: "updates (unmount ?v) = updates ?v" "currentTime (unmount ?v) = currentTime ?v"
    by simp_all
  moreover from elapse_idle [OF i, of fmt m] k
  have "updates (elapse fmt m (unmount ?v)) = updates ?v"
    "currentTime (elapse fmt m (unmount ?v)) = currentTime ?v"
    by simp_all
  ultimately show ?thesis by blast
qed

theorem TimeDisplay_ticks_until_unmount_witness:
  "intervals initial_world = []
   \<and> map fst (updates (elapse sample_fmt 2500 (mount sample_fmt sample_props initial_world))) =
       [0, 1000, 2000]
   \<and> currentTime (elapse sample_fmt 2500 (mount sample_fmt sample_props initial_world)) = ''2''
   \<and> intervals (unmount (elapse sample_fmt 2500 (mount sample_fmt sample_props initial_world))) = []
   \<and> updates (elapse sample_fmt 5000 (unmount (elapse sample_fmt 2500 (mount sample_fmt sample_props initial_world)))) =
       updates (elapse sample_fmt 2500 (mount sample_fmt sample_props initial_world))"
proof -
  have i: "intervals initial_world = []" "updates initial_world = []" "now initial_world = 0"
    by (simp_all add: initial_world_def)
  have k: "map (\<lambda>k. now initial_world + 1000 * k) [0..<Suc (2500 div 1000)] = [0, 1000, 2000]"
    by (simp add: i upt_rec)
  have f: "sample_fmt (case locale' sample_props of Some l \<Rightarrow> l | None \<Rightarrow> ''en-GB'')
             (timeZone sample_props) (now initial_world + 1000 * (2500 div 1000)) = ''2''"
    by (simp add: sample_fmt_def i to_dec.simps digit_char_def)
  note r = TimeDisplay_ticks_until_unmount [OF i(1), of sample_fmt 2500 sample_props 5000, unfolded k f]
  from r i show ?thesis by simp
qed

end
